theory Spec2Isabelle
  imports Main "HOL-Library.Char_ord" "HOL-Library.List_Lexorder" "HOL-Library.Sublist"
begin

section \<open>Python values used by serve-sample-data.py\<close>

text \<open>
  Strings are byte strings: a Python \<open>str\<close> stands for its UTF-8 encoding (the order of
  UTF-8 byte strings is the code point order that \<open>sorted\<close> uses), and the request line of
  the HTTP handler is the latin-1 decoding of the received bytes, one character per byte.
\<close>

definition DEFAULT_PORT :: int where
  "DEFAULT_PORT = 8888"

definition SAMPLE_DATA_DIR :: string where
  "SAMPLE_DATA_DIR = ''demo/sample-data''"

definition squote :: string where
  "squote = [CHR 0x27]"

definition is_digit :: "char \<Rightarrow> bool" where
  "is_digit c = (CHR ''0'' \<le> c \<and> c \<le> CHR ''9'')"

definition digit_val :: "char \<Rightarrow> nat" where
  "digit_val c = of_char c - 48"

definition digit_char :: "nat \<Rightarrow> char" where
  "digit_char n = ''0123456789'' ! n"

text \<open>\<open>str(n)\<close> of a Python int: the decimal digits, with a minus sign below zero.\<close>

fun digits :: "nat \<Rightarrow> string" where
  "digits n = (if n < 10 then [digit_char n] else digits (n div 10) @ [digit_char (n mod 10)])"

declare digits.simps [simp del]

definition str_int :: "int \<Rightarrow> string" where
  "str_int i = (if i < 0 then CHR ''-'' # digits (nat (- i)) else digits (nat i))"

text \<open>
  An argument of the command line reaches the process as a byte string, and \<open>sys.argv\<close>
  holds its decoding as UTF-8 with the error handler \<open>surrogateescape\<close>: the code points
  of a well-formed byte string, and a string with lone surrogates for any other (\<open>None\<close>
  here). Overlong forms, encoded surrogates and values above 10FFFF are not well-formed.
\<close>

definition continuation :: "char \<Rightarrow> bool" where
  "continuation c = (128 \<le> (of_char c :: int) \<and> (of_char c :: int) < 192)"

fun utf8_decode :: "string \<Rightarrow> int list option" where
  "utf8_decode [] = Some []"
| "utf8_decode (c # cs) =
     (if (of_char c :: int) < 128 then map_option ((#) (of_char c)) (utf8_decode cs)
      else if 194 \<le> (of_char c :: int) \<and> (of_char c :: int) < 224
      then (case cs of
              c1 # r \<Rightarrow>
                if continuation c1
                then map_option ((#) ((of_char c - 192) * 64 + (of_char c1 - 128)))
                       (utf8_decode r)
                else None
            | _ \<Rightarrow> None)
      else if 224 \<le> (of_char c :: int) \<and> (of_char c :: int) < 240
      then (case cs of
              c1 # c2 # r \<Rightarrow>
                if continuation c1 \<and> continuation c2
                   \<and> 2048 \<le> (of_char c - 224) * 4096 + (of_char c1 - 128) * 64
                              + (of_char c2 - 128 :: int)
                   \<and> \<not> (55296 \<le> (of_char c - 224) * 4096 + (of_char c1 - 128) * 64
                                  + (of_char c2 - 128 :: int)
                        \<and> (of_char c - 224) * 4096 + (of_char c1 - 128) * 64
                             + (of_char c2 - 128 :: int) \<le> 57343)
                then map_option ((#) ((of_char c - 224) * 4096 + (of_char c1 - 128) * 64
                                       + (of_char c2 - 128)))
                       (utf8_decode r)
                else None
            | _ \<Rightarrow> None)
      else if 240 \<le> (of_char c :: int) \<and> (of_char c :: int) < 245
      then (case cs of
              c1 # c2 # c3 # r \<Rightarrow>
                if continuation c1 \<and> continuation c2 \<and> continuation c3
                   \<and> 65536 \<le> (of_char c - 240) * 262144 + (of_char c1 - 128) * 4096
                               + (of_char c2 - 128) * 64 + (of_char c3 - 128 :: int)
                   \<and> (of_char c - 240) * 262144 + (of_char c1 - 128) * 4096
                        + (of_char c2 - 128) * 64 + (of_char c3 - 128 :: int) \<le> 1114111
                then map_option ((#) ((of_char c - 240) * 262144 + (of_char c1 - 128) * 4096
                                       + (of_char c2 - 128) * 64 + (of_char c3 - 128)))
                       (utf8_decode r)
                else None
            | _ \<Rightarrow> None)
      else None)"

text \<open>
  \<open>int(s)\<close> of a \<open>str\<close>, base 10, as CPython 3.12 computes it
  (\<open>PyLong_FromUnicodeObject\<close>). First \<open>_PyUnicode_TransformDecimalAndSpaceToASCII\<close>:
  an ASCII string is taken as it is; in any other string a code point below 127 is kept,
  white space (\<open>Py_UNICODE_ISSPACE\<close>) becomes a blank, a decimal digit of any script
  (\<open>Py_UNICODE_TODECIMAL\<close>, Unicode 15.0: the ten code points from each of the 68 zeros
  listed) becomes the ASCII digit, and the first other character becomes \<open>?\<close> and ends
  the string. Then \<open>PyLong_FromString\<close>: white space of C (\<open>Py_ISSPACE\<close>) is skipped,
  one sign is allowed, the digits may be separated by single underscores, more than 4300
  digits are refused (the interpreter's default limit), white space is skipped again and
  nothing may follow. \<open>None\<close> is ValueError.
\<close>

definition Py_UNICODE_ISSPACE :: "int \<Rightarrow> bool" where
  "Py_UNICODE_ISSPACE ch =
     ((9 \<le> ch \<and> ch \<le> 13) \<or> (28 \<le> ch \<and> ch \<le> 32) \<or> ch = 0x85 \<or> ch = 0xA0
      \<or> ch = 0x1680 \<or> (0x2000 \<le> ch \<and> ch \<le> 0x200A) \<or> ch = 0x2028 \<or> ch = 0x2029
      \<or> ch = 0x202F \<or> ch = 0x205F \<or> ch = 0x3000)"

definition decimal_zeros :: "int list" where
  "decimal_zeros =
     [0x0030, 0x0660, 0x06F0, 0x07C0, 0x0966, 0x09E6, 0x0A66, 0x0AE6,
      0x0B66, 0x0BE6, 0x0C66, 0x0CE6, 0x0D66, 0x0DE6, 0x0E50, 0x0ED0,
      0x0F20, 0x1040, 0x1090, 0x17E0, 0x1810, 0x1946, 0x19D0, 0x1A80,
      0x1A90, 0x1B50, 0x1BB0, 0x1C40, 0x1C50, 0xA620, 0xA8D0, 0xA900,
      0xA9D0, 0xA9F0, 0xAA50, 0xABF0, 0xFF10, 0x104A0, 0x10D30, 0x11066,
      0x110F0, 0x11136, 0x111D0, 0x112F0, 0x11450, 0x114D0, 0x11650, 0x116C0,
      0x11730, 0x118E0, 0x11950, 0x11C50, 0x11D50, 0x11DA0, 0x11F50, 0x16A60,
      0x16AC0, 0x16B50, 0x1D7CE, 0x1D7D8, 0x1D7E2, 0x1D7EC, 0x1D7F6, 0x1E140,
      0x1E2F0, 0x1E4F0, 0x1E950, 0x1FBF0]"

definition Py_UNICODE_TODECIMAL :: "int \<Rightarrow> int option" where
  "Py_UNICODE_TODECIMAL ch =
     map_option (\<lambda>z. ch - z) (find (\<lambda>z. z \<le> ch \<and> ch < z + 10) decimal_zeros)"

fun transform :: "int list \<Rightarrow> string" where
  "transform [] = []"
| "transform (ch # rest) =
     (if ch < 127 then char_of ch # transform rest
      else if Py_UNICODE_ISSPACE ch then CHR '' '' # transform rest
      else (case Py_UNICODE_TODECIMAL ch of
              None \<Rightarrow> ''?''
            | Some decimal \<Rightarrow> char_of (48 + decimal) # transform rest))"

definition TransformDecimalAndSpaceToASCII :: "int list \<Rightarrow> string" where
  "TransformDecimalAndSpaceToASCII u =
     (if list_all (\<lambda>ch. ch < 128) u then map char_of u else transform u)"

definition Py_ISSPACE :: "char \<Rightarrow> bool" where
  "Py_ISSPACE c = (c \<in> {CHR 0x09, CHR 0x0A, CHR 0x0B, CHR 0x0C, CHR 0x0D, CHR 0x20})"

fun doubled_underscore :: "string \<Rightarrow> bool" where
  "doubled_underscore (c # d # ds) =
     ((c = CHR ''_'' \<and> d = CHR ''_'') \<or> doubled_underscore (d # ds))"
| "doubled_underscore _ = False"

definition long_value :: "string \<Rightarrow> int" where
  "long_value ds = foldl (\<lambda>n d. n * 10 + (of_char d - 48)) 0 ds"

definition PyLong_FromString :: "string \<Rightarrow> int option" where
  "PyLong_FromString s =
     (let str = dropWhile Py_ISSPACE s;
          negative = (str \<noteq> [] \<and> hd str = CHR ''-'');
          str = (if str \<noteq> [] \<and> (hd str = CHR ''+'' \<or> hd str = CHR ''-'') then tl str else str);
          scan = takeWhile (\<lambda>c. is_digit c \<or> c = CHR ''_'') str;
          rest = dropWhile (\<lambda>c. is_digit c \<or> c = CHR ''_'') str;
          ds = filter is_digit scan
      in if scan = [] \<or> hd scan = CHR ''_'' \<or> last scan = CHR ''_''
            \<or> doubled_underscore scan \<or> length ds > 4300
            \<or> dropWhile Py_ISSPACE rest \<noteq> []
         then None
         else Some (if negative then - long_value ds else long_value ds))"

text \<open>\<open>int(sys.argv[1])\<close>, from the bytes of the argument.\<close>

definition py_int :: "string \<Rightarrow> int option" where
  "py_int s =
     (case utf8_decode s of
        None \<Rightarrow> None
      | Some u \<Rightarrow> PyLong_FromString (TransformDecimalAndSpaceToASCII u))"

section \<open>Paths and the file system\<close>

text \<open>\<open>posixpath.dirname\<close> and \<open>posixpath.join\<close> (two arguments).\<close>

definition os_path_dirname :: "string \<Rightarrow> string" where
  "os_path_dirname p =
     (let head = rev (dropWhile (\<lambda>c. c \<noteq> CHR ''/'') (rev p))
      in if head \<noteq> [] \<and> head \<noteq> replicate (length head) (CHR ''/'')
         then rev (dropWhile (\<lambda>c. c = CHR ''/'') (rev head))
         else head)"

definition os_path_join :: "string \<Rightarrow> string \<Rightarrow> string" where
  "os_path_join a b =
     (if b \<noteq> [] \<and> hd b = CHR ''/'' then b
      else if a = [] \<or> last a = CHR ''/'' then a @ b
      else a @ ''/'' @ b)"

text \<open>
  The file system is what the operating system answers for a path: nothing, a regular
  file with its bytes, or a directory with the names in it and its own size. Permissions
  are not modelled: every existing entry can be read.
\<close>

datatype node = File string | Dir "string list" nat

type_synonym filesystem = "string \<Rightarrow> node option"

datatype py_exception =
    ValueError | FileNotFoundError | NotADirectoryError | OSError | OverflowError
  | AttributeError | TypeError

definition os_path_exists :: "filesystem \<Rightarrow> string \<Rightarrow> bool" where
  "os_path_exists fs p = (fs p \<noteq> None)"

definition os_path_isfile :: "filesystem \<Rightarrow> string \<Rightarrow> bool" where
  "os_path_isfile fs p = (case fs p of Some (File _) \<Rightarrow> True | _ \<Rightarrow> False)"

definition os_path_isdir :: "filesystem \<Rightarrow> string \<Rightarrow> bool" where
  "os_path_isdir fs p = (case fs p of Some (Dir _ _) \<Rightarrow> True | _ \<Rightarrow> False)"

definition os_path_getsize :: "filesystem \<Rightarrow> string \<Rightarrow> py_exception + nat" where
  "os_path_getsize fs p =
     (case fs p of
        None \<Rightarrow> Inl FileNotFoundError
      | Some (File bytes) \<Rightarrow> Inr (length bytes)
      | Some (Dir _ sz) \<Rightarrow> Inr sz)"

text \<open>\<open>os.chdir\<close> returns the new working directory.\<close>

definition os_chdir :: "filesystem \<Rightarrow> string \<Rightarrow> py_exception + string" where
  "os_chdir fs p =
     (case fs p of
        None \<Rightarrow> Inl FileNotFoundError
      | Some (File _) \<Rightarrow> Inl NotADirectoryError
      | Some (Dir _ _) \<Rightarrow> Inr p)"

definition os_listdir :: "filesystem \<Rightarrow> string \<Rightarrow> py_exception + string list" where
  "os_listdir fs p =
     (case fs p of
        None \<Rightarrow> Inl FileNotFoundError
      | Some (File _) \<Rightarrow> Inl NotADirectoryError
      | Some (Dir names _) \<Rightarrow> Inr names)"

section \<open>Server bootstrap: main\<close>

text \<open>
  What \<open>main\<close> finds outside itself: the absolute path of the script
  (\<open>os.path.abspath(__file__)\<close>), the file system, which ports the operating system
  lets the process bind, and whether Ctrl+C arrives while the server runs.
\<close>

record os_env =
  script_abspath :: string
  fs :: filesystem
  bind_ok :: "int \<Rightarrow> bool"
  interrupted :: bool

text \<open>
  The effects of a run in their order. \<open>Stdout\<close> is one call of \<open>print\<close> (which
  writes to standard output), \<open>Bind\<close> the creation of the listening socket with its
  address, \<open>ServeForever\<close> the entry into the accept loop.
\<close>

datatype event =
    Stdout string
  | Stderr string
  | Chdir string
  | Bind string int
  | ServeForever
  | Shutdown

text \<open>
  How a run ends: \<open>sys.exit\<close> with a code, an exception nobody catches (the interpreter
  prints the traceback to standard error and the exit code is 1), or the accept loop that
  does not return.
\<close>

datatype outcome = Exit int | Uncaught py_exception | Serving

text \<open>
  \<open>HTTPServer(('0.0.0.0', port), handler)\<close>: the socket module refuses a port outside
  0..65535 with OverflowError, the operating system may refuse the address with OSError.
\<close>

definition HTTPServer :: "os_env \<Rightarrow> int \<Rightarrow> py_exception + unit" where
  "HTTPServer env port =
     (if port < 0 \<or> 65535 < port then Inl OverflowError
      else if \<not> bind_ok env port then Inl OSError
      else Inr ())"

definition rule70 :: string where
  "rule70 = replicate 70 (CHR ''='')"

definition file_line :: "int \<Rightarrow> string \<Rightarrow> nat \<Rightarrow> string" where
  "file_line port f file_size =
     ''   - http://localhost:'' @ str_int port @ ''/'' @ f @ '' ('' @ str_int (int file_size)
       @ '' bytes)''"

text \<open>The loop \<open>for f in sorted(files)\<close>, given the sorted list; it stops where getsize raises.\<close>

fun print_files ::
  "filesystem \<Rightarrow> string \<Rightarrow> int \<Rightarrow> string list \<Rightarrow> event list \<times> py_exception option" where
  "print_files fsys cwd port [] = ([], None)"
| "print_files fsys cwd port (f # rest) =
     (case os_path_getsize fsys (os_path_join cwd f) of
        Inl e \<Rightarrow> ([], Some e)
      | Inr file_size \<Rightarrow>
          (case print_files fsys cwd port rest of
             (evs, r) \<Rightarrow> (Stdout (file_line port f file_size) # evs, r)))"

text \<open>The lines printed before and after the list of files (emoji as UTF-8 bytes).\<close>

definition banner_head :: "string \<Rightarrow> int \<Rightarrow> nat \<Rightarrow> event list" where
  "banner_head sample_data_path port n =
     [Stdout rule70,
      Stdout ([CHR 0xF0, CHR 0x9F, CHR 0x9A, CHR 0x80] @ '' Druid Sample Data HTTP Server''),
      Stdout rule70,
      Stdout ([CHR 0xF0, CHR 0x9F, CHR 0x93, CHR 0x81] @ '' Serving directory: ''
                @ sample_data_path),
      Stdout ([CHR 0xF0, CHR 0x9F, CHR 0x8C, CHR 0x90] @ '' Server running at: http://localhost:''
                @ str_int port @ ''/''),
      Stdout ([CHR 0xF0, CHR 0x9F, CHR 0x8C, CHR 0x90] @ '' Network address:   http://0.0.0.0:''
                @ str_int port @ ''/''),
      Stdout rule70,
      Stdout ([CHR 0xF0, CHR 0x9F, CHR 0x93, CHR 0x84] @ '' Available files (''
                @ str_int (int n) @ ''):'')]"

definition banner_tail :: "int \<Rightarrow> event list" where
  "banner_tail port =
     [Stdout rule70,
      Stdout ([CHR 0x0A, CHR 0xF0, CHR 0x9F, CHR 0x92, CHR 0xA1] @ '' Usage in Druid:''),
      Stdout ''   1. Open Druid Console: http://localhost:31888'',
      Stdout (''   2. Load data '' @ [CHR 0xE2, CHR 0x86, CHR 0x92] @ '' HTTP''),
      Stdout (''   3. URI: http://localhost:'' @ str_int port @ ''/<filename>''),
      Stdout (''   Example: http://localhost:'' @ str_int port @ ''/two-partition-demo.json''),
      Stdout ([CHR 0x0A, CHR 0xE2, CHR 0x9A, CHR 0xA0, CHR 0xEF, CHR 0xB8, CHR 0x8F]
                @ ''  Press Ctrl+C to stop the server'' @ [CHR 0x0A]),
      Stdout rule70]"

definition main :: "os_env \<Rightarrow> string list \<Rightarrow> event list \<times> outcome" where
  "main env argv =
     (case (if length argv > 1
            then (case py_int (argv ! 1) of None \<Rightarrow> Inl ValueError | Some p \<Rightarrow> Inr p)
            else Inr DEFAULT_PORT) of
        Inl _ \<Rightarrow>
          ([Stdout (''Error: Invalid port number '' @ squote @ argv ! 1 @ squote),
            Stdout (''Usage: '' @ argv ! 0 @ '' [port]'')], Exit 1)
      | Inr port \<Rightarrow>
          (let script_dir = os_path_dirname (script_abspath env);
               sample_data_path = os_path_join script_dir SAMPLE_DATA_DIR
           in if \<not> os_path_exists (fs env) sample_data_path
              then ([Stdout (''Error: Sample data directory not found: '' @ sample_data_path)],
                    Exit 1)
              else
                (case os_chdir (fs env) sample_data_path of
                   Inl e \<Rightarrow> ([], Uncaught e)
                 | Inr cwd \<Rightarrow>
                     (case os_listdir (fs env) cwd of
                        Inl e \<Rightarrow> ([Chdir cwd], Uncaught e)
                      | Inr names \<Rightarrow>
                          (let files = filter (\<lambda>f. os_path_isfile (fs env) (os_path_join cwd f))
                                         names
                           in case HTTPServer env port of
                                Inl e \<Rightarrow> ([Chdir cwd, Bind ''0.0.0.0'' port], Uncaught e)
                              | Inr _ \<Rightarrow>
                                  (case print_files (fs env) cwd port (sort files) of
                                     (lines, Some e) \<Rightarrow>
                                       ([Chdir cwd, Bind ''0.0.0.0'' port]
                                          @ banner_head sample_data_path port (length files)
                                          @ lines, Uncaught e)
                                   | (lines, None) \<Rightarrow>
                                       (let evs = [Chdir cwd, Bind ''0.0.0.0'' port]
                                              @ banner_head sample_data_path port (length files)
                                              @ lines @ banner_tail port @ [ServeForever]
                                        in if interrupted env
                                           then (evs @ [Stdout ([CHR 0x0A, CHR 0x0A, CHR 0xF0,
                                                                CHR 0x9F, CHR 0x9B, CHR 0x91]
                                                          @ '' Server stopped by user''),
                                                        Shutdown], Exit 0)
                                           else (evs, Serving))))))))"

text \<open>The bytes of the regular file at a path (empty where there is none).\<close>

definition file_bytes :: "filesystem \<Rightarrow> string \<Rightarrow> string" where
  "file_bytes fsys p = (case fsys p of Some (File b) \<Rightarrow> b | _ \<Rightarrow> [])"

text \<open>
  A concrete installation: the script in /srv, two data files of 10 and 20 bytes and a
  subdirectory in /srv/demo/sample-data.
\<close>

definition sample_fs :: filesystem where
  "sample_fs =
     [''/srv/demo/sample-data'' \<mapsto> Dir [''sub'', ''b.csv'', ''a.json''] 4096,
      ''/srv/demo/sample-data/a.json'' \<mapsto> File ''0123456789'',
      ''/srv/demo/sample-data/b.csv'' \<mapsto> File ''01234567890123456789'',
      ''/srv/demo/sample-data/sub'' \<mapsto> Dir [] 4096]"

definition sample_env :: os_env where
  "sample_env = \<lparr>script_abspath = ''/srv/serve-sample-data.py'', fs = sample_fs,
                  bind_ok = (\<lambda>p. True), interrupted = False\<rparr>"

text \<open>The same installation without the data directory, and with a regular file in its place.\<close>

definition missing_env :: os_env where
  "missing_env = sample_env\<lparr>fs := Map.empty\<rparr>"

definition file_env :: os_env where
  "file_env = sample_env\<lparr>fs := [''/srv/demo/sample-data'' \<mapsto> File ''not a directory'']\<rparr>"

section \<open>The request handler\<close>

text \<open>
  \<open>CustomHTTPRequestHandler\<close> overrides two methods of
  \<open>http.server.SimpleHTTPRequestHandler\<close>; everything else is inherited. The inherited
  methods are embedded from the standard library's \<open>http/server.py\<close> (CPython 3.12),
  since they decide what the two overrides do to a response.
\<close>

definition CRLF :: string where
  "CRLF = [CHR 0x0D, CHR 0x0A]"

definition backslash :: char where
  "backslash = CHR 0x5C"

definition dquote :: char where
  "dquote = CHR 0x22"

text \<open>\<open>str.lower\<close> on the characters of latin-1.\<close>

definition py_lower_char :: "char \<Rightarrow> char" where
  "py_lower_char c =
     (let n = (of_char c :: nat)
      in if (65 \<le> n \<and> n \<le> 90) \<or> (192 \<le> n \<and> n \<le> 222 \<and> n \<noteq> 215)
         then char_of (n + 32) else c)"

definition py_lower :: "string \<Rightarrow> string" where
  "py_lower s = map py_lower_char s"

text \<open>
  \<open>repr\<close> of a str of latin-1 characters: single quotes unless the string has a single
  and no double quote; the quote and the backslash are escaped, so are tab, newline and
  return, and every other non-printable character is written \<open>\xNN\<close>.
\<close>

definition hex_digit :: "nat \<Rightarrow> char" where
  "hex_digit n = ''0123456789abcdef'' ! n"

definition repr_char :: "char \<Rightarrow> char \<Rightarrow> string" where
  "repr_char q c =
     (let n = (of_char c :: nat)
      in if c = q \<or> c = backslash then [backslash, c]
         else if c = CHR 0x09 then [backslash, CHR ''t'']
         else if c = CHR 0x0A then [backslash, CHR ''n'']
         else if c = CHR 0x0D then [backslash, CHR ''r'']
         else if n < 32 \<or> (127 \<le> n \<and> n \<le> 160) \<or> n = 173
         then [backslash, CHR ''x'', hex_digit (n div 16), hex_digit (n mod 16)]
         else [c])"

definition py_repr :: "string \<Rightarrow> string" where
  "py_repr s =
     (let q = (if CHR 0x27 \<in> set s \<and> dquote \<notin> set s then dquote else CHR 0x27)
      in q # concat (map (repr_char q) s) @ [q])"

text \<open>
  \<open>format % args\<close> with a tuple of arguments, for the conversions the handler's callers
  use: \<open>%s\<close>, \<open>%d\<close>, \<open>%r\<close> and \<open>%%\<close>. Too few or too many arguments, or a string
  given to \<open>%d\<close>, raise TypeError; an unknown or unfinished conversion raises ValueError.
\<close>

datatype pyval = PStr string | PInt int

definition py_str :: "pyval \<Rightarrow> string" where
  "py_str v = (case v of PStr s \<Rightarrow> s | PInt i \<Rightarrow> str_int i)"

definition convert :: "char \<Rightarrow> pyval \<Rightarrow> py_exception + string" where
  "convert d v =
     (if d = CHR ''s'' then Inr (py_str v)
      else if d = CHR ''r'' then Inr (case v of PStr s \<Rightarrow> py_repr s | PInt i \<Rightarrow> str_int i)
      else if d = CHR ''d'' then (case v of PStr _ \<Rightarrow> Inl TypeError | PInt i \<Rightarrow> Inr (str_int i))
      else Inl ValueError)"

fun py_format :: "string \<Rightarrow> pyval list \<Rightarrow> py_exception + string" where
  "py_format [] [] = Inr []"
| "py_format [] (v # vs) = Inl TypeError"
| "py_format [c] vs =
     (if c = CHR ''%'' then Inl ValueError
      else (case vs of [] \<Rightarrow> Inr [c] | _ \<Rightarrow> Inl TypeError))"
| "py_format (c # d # cs) vs =
     (if c \<noteq> CHR ''%'' then map_sum id ((#) c) (py_format (d # cs) vs)
      else if d = CHR ''%'' then map_sum id ((#) (CHR ''%'')) (py_format cs vs)
      else (case vs of
              [] \<Rightarrow> Inl TypeError
            | v # rest \<Rightarrow>
                (case convert d v of
                   Inl e \<Rightarrow> Inl e
                 | Inr s \<Rightarrow> map_sum id ((@) s) (py_format cs rest))))"

text \<open>
  The state of one handler object: the attributes the methods read and write, the bytes
  written to the connection (\<open>wfile\<close>, one entry per write), and what has been printed
  to standard output and written to standard error. \<open>headers_buffer = None\<close> means that
  the attribute \<open>_headers_buffer\<close> does not exist yet.
\<close>

record handler =
  client_address :: string
  directory :: string
  requestline :: string
  command :: "string option"
  path :: string
  request_version :: string
  close_connection :: bool
  headers :: "(string \<times> string) list"
  headers_buffer :: "string list option"
  wfile :: "string list"
  stdout :: "string list"
  stderr :: "string list"

definition address_string :: "handler \<Rightarrow> string" where
  "address_string h = client_address h"

text \<open>The override of \<open>log_message\<close>: one \<open>print\<close>, which writes to standard output.\<close>

definition log_message :: "handler \<Rightarrow> string \<Rightarrow> pyval list \<Rightarrow> py_exception + handler" where
  "log_message h format args =
     (case py_format format args of
        Inl e \<Rightarrow> Inl e
      | Inr message \<Rightarrow>
          Inr (h\<lparr>stdout := stdout h @ [''[HTTP] '' @ address_string h @ '' - '' @ message]\<rparr>))"

text \<open>\<open>BaseHTTPRequestHandler.send_header\<close>, \<open>flush_headers\<close> and \<open>end_headers\<close>.\<close>

definition send_header :: "handler \<Rightarrow> string \<Rightarrow> string \<Rightarrow> handler" where
  "send_header h keyword val =
     (let h1 = (if request_version h \<noteq> ''HTTP/0.9''
                then h\<lparr>headers_buffer :=
                        Some ((case headers_buffer h of None \<Rightarrow> [] | Some b \<Rightarrow> b)
                              @ [keyword @ '': '' @ val @ CRLF])\<rparr>
                else h)
      in if py_lower keyword = ''connection''
         then (if py_lower val = ''close'' then h1\<lparr>close_connection := True\<rparr>
               else if py_lower val = ''keep-alive'' then h1\<lparr>close_connection := False\<rparr>
               else h1)
         else h1)"

definition flush_headers :: "handler \<Rightarrow> handler" where
  "flush_headers h =
     (case headers_buffer h of
        None \<Rightarrow> h
      | Some b \<Rightarrow> h\<lparr>wfile := wfile h @ [concat b], headers_buffer := Some []\<rparr>)"

definition base_end_headers :: "handler \<Rightarrow> py_exception + handler" where
  "base_end_headers h =
     (if request_version h \<noteq> ''HTTP/0.9''
      then (case headers_buffer h of
              None \<Rightarrow> Inl AttributeError
            | Some b \<Rightarrow> Inr (flush_headers (h\<lparr>headers_buffer := Some (b @ [CRLF])\<rparr>)))
      else Inr h)"

text \<open>The override of \<open>end_headers\<close>: three calls of \<open>send_header\<close>, then the base method.\<close>

definition end_headers :: "handler \<Rightarrow> py_exception + handler" where
  "end_headers h =
     base_end_headers
       (send_header
          (send_header
             (send_header h ''Access-Control-Allow-Origin'' ''*'')
             ''Access-Control-Allow-Methods'' ''GET, OPTIONS'')
          ''Access-Control-Allow-Headers'' ''Content-Type'')"

text \<open>The three header lines as they stand in the response.\<close>

definition cors_lines :: "string list" where
  "cors_lines =
     [''Access-Control-Allow-Origin: *'' @ CRLF,
      ''Access-Control-Allow-Methods: GET, OPTIONS'' @ CRLF,
      ''Access-Control-Allow-Headers: Content-Type'' @ CRLF]"

subsection \<open>Inherited from BaseHTTPRequestHandler\<close>

text \<open>A raised exception ends the method; otherwise the next step sees the new state.\<close>

definition and_then :: "'e + 'a \<Rightarrow> ('a \<Rightarrow> 'e + 'b) \<Rightarrow> 'e + 'b" where
  "and_then r f = (case r of Inl e \<Rightarrow> Inl e | Inr x \<Rightarrow> f x)"

definition LF :: string where
  "LF = [CHR 0x0A]"

definition protocol_version :: string where
  "protocol_version = ''HTTP/1.0''"

definition error_content_type :: string where
  "error_content_type = ''text/html;charset=utf-8''"

text \<open>
  The entries of \<open>responses\<close> (phrase and description of \<open>http.HTTPStatus\<close>) for the
  status codes this handler sends.
\<close>

definition responses :: "nat \<Rightarrow> (string \<times> string) option" where
  "responses code =
     (if code = 100 then Some (''Continue'', ''Request received, please continue'')
      else if code = 200 then Some (''OK'', ''Request fulfilled, document follows'')
      else if code = 301
      then Some (''Moved Permanently'', ''Object moved permanently -- see URI list'')
      else if code = 304
      then Some (''Not Modified'', ''Document has not changed since given time'')
      else if code = 400
      then Some (''Bad Request'', ''Bad request syntax or unsupported method'')
      else if code = 404 then Some (''Not Found'', ''Nothing matches the given URI'')
      else if code = 414 then Some (''Request-URI Too Long'', ''URI is too long'')
      else if code = 431
      then Some (''Request Header Fields Too Large'',
                 ''The server is unwilling to process the request because its header ''
                 @ ''fields are too large'')
      else if code = 501
      then Some (''Not Implemented'', ''Server does not support this operation'')
      else if code = 505
      then Some (''HTTP Version Not Supported'', ''Cannot fulfill request'')
      else None)"

text \<open>\<open>html.escape(s, quote=False)\<close>, and the UTF-8 encoding of latin-1 characters.\<close>

definition html_escape :: "string \<Rightarrow> string" where
  "html_escape s =
     concat (map (\<lambda>c. if c = CHR ''&'' then ''&amp;''
                       else if c = CHR ''<'' then ''&lt;''
                       else if c = CHR ''>'' then ''&gt;'' else [c]) s)"

definition utf8 :: "string \<Rightarrow> string" where
  "utf8 s =
     concat (map (\<lambda>c. let n = (of_char c :: nat)
                       in if n < 128 then [c]
                          else [char_of (192 + n div 64), char_of (128 + n mod 64)]) s)"

text \<open>\<open>DEFAULT_ERROR_MESSAGE\<close> filled in with the code, the message and the explanation.\<close>

definition error_message :: "nat \<Rightarrow> string \<Rightarrow> string \<Rightarrow> string" where
  "error_message code message explain =
     ''<!DOCTYPE HTML>'' @ LF
     @ ''<html lang='' @ [dquote] @ ''en'' @ [dquote] @ ''>'' @ LF
     @ ''    <head>'' @ LF
     @ ''        <meta charset='' @ [dquote] @ ''utf-8'' @ [dquote] @ ''>'' @ LF
     @ ''        <title>Error response</title>'' @ LF
     @ ''    </head>'' @ LF
     @ ''    <body>'' @ LF
     @ ''        <h1>Error response</h1>'' @ LF
     @ ''        <p>Error code: '' @ str_int (int code) @ ''</p>'' @ LF
     @ ''        <p>Message: '' @ message @ ''.</p>'' @ LF
     @ ''        <p>Error code explanation: '' @ str_int (int code) @ '' - '' @ explain
     @ ''.</p>'' @ LF
     @ ''    </body>'' @ LF
     @ ''</html>'' @ LF"

text \<open>
  What the methods take from the rest of the standard library and from the clock. These
  stay parameters: the server software string, the date headers, percent decoding (its
  result standing in the encoding of the file system), the two uses of
  \<open>urllib.parse.urlsplit\<close> in \<open>send_head\<close>, the MIME type table, the comparison of
  the If-Modified-Since header with the file's time, and the HTML page of a directory.
\<close>

record pylib =
  version_string :: string
  date_time_string :: string
  unquote :: "string \<Rightarrow> string"
  urlsplit_path :: "string \<Rightarrow> string"
  redirect_url :: "string \<Rightarrow> string"
  guess_type :: "string \<Rightarrow> string"
  not_modified :: "(string \<times> string) list \<Rightarrow> string \<Rightarrow> bool"
  last_modified :: "string \<Rightarrow> string"
  listing :: "string \<Rightarrow> string \<Rightarrow> string list \<Rightarrow> string"
  fs_encoding :: string

definition log_request_format :: string where
  "log_request_format = [dquote] @ ''%s'' @ [dquote] @ '' %s %s''"

definition log_request :: "handler \<Rightarrow> nat \<Rightarrow> py_exception + handler" where
  "log_request h code =
     log_message h log_request_format
       [PStr (requestline h), PStr (str_int (int code)), PStr ''-'']"

definition log_error :: "handler \<Rightarrow> string \<Rightarrow> pyval list \<Rightarrow> py_exception + handler" where
  "log_error h format args = log_message h format args"

definition send_response_only :: "handler \<Rightarrow> nat \<Rightarrow> string option \<Rightarrow> handler" where
  "send_response_only h code message =
     (if request_version h \<noteq> ''HTTP/0.9''
      then (let m = (case message of
                       Some m \<Rightarrow> m
                     | None \<Rightarrow> (case responses code of Some (phrase, _) \<Rightarrow> phrase
                                                     | None \<Rightarrow> []))
            in h\<lparr>headers_buffer :=
                   Some ((case headers_buffer h of None \<Rightarrow> [] | Some b \<Rightarrow> b)
                         @ [protocol_version @ '' '' @ str_int (int code) @ '' '' @ m
                            @ CRLF])\<rparr>)
      else h)"

definition send_response ::
  "pylib \<Rightarrow> handler \<Rightarrow> nat \<Rightarrow> string option \<Rightarrow> py_exception + handler" where
  "send_response lib h code message =
     and_then (log_request h code) (\<lambda>h.
       Inr (send_header
              (send_header (send_response_only h code message) ''Server''
                 (version_string lib))
              ''Date'' (date_time_string lib)))"

definition send_error ::
  "pylib \<Rightarrow> handler \<Rightarrow> nat \<Rightarrow> string option \<Rightarrow> string option \<Rightarrow> py_exception + handler"
  where
  "send_error lib h code message explain =
     (let (shortmsg, longmsg) =
            (case responses code of Some r \<Rightarrow> r | None \<Rightarrow> (''???'', ''???''));
          message = (case message of None \<Rightarrow> shortmsg | Some m \<Rightarrow> m);
          explain = (case explain of None \<Rightarrow> longmsg | Some e \<Rightarrow> e)
      in and_then (log_error h ''code %d, message %s'' [PInt (int code), PStr message])
           (\<lambda>h. and_then (send_response lib h code (Some message))
           (\<lambda>h. let h = send_header h ''Connection'' ''close'';
                     body = (if code \<ge> 200 \<and> code \<noteq> 204 \<and> code \<noteq> 205 \<and> code \<noteq> 304
                             then Some (utf8 (error_message code (html_escape message)
                                                (html_escape explain)))
                             else None);
                     h = (case body of
                            None \<Rightarrow> h
                          | Some b \<Rightarrow>
                              send_header
                                (send_header h ''Content-Type'' error_content_type)
                                ''Content-Length'' (str_int (int (length b))))
                 in and_then (end_headers h)
                      (\<lambda>h. Inr (case body of
                                  None \<Rightarrow> h
                                | Some b \<Rightarrow>
                                    if command h \<noteq> Some ''HEAD'' \<and> b \<noteq> []
                                    then h\<lparr>wfile := wfile h @ [b]\<rparr> else h)))))"

text \<open>
  One request as the handler reads it: the line that \<open>rfile.readline(65537)\<close> returns,
  and what \<open>http.client.parse_headers\<close> makes of the lines after it: a header line
  that is too long, too many headers (each with the text of the exception), or the
  headers in their order.
\<close>

datatype header_block =
    LineTooLong string
  | TooManyHeaders string
  | Headers "(string \<times> string) list"

record request =
  raw_requestline :: string
  header_lines :: header_block

text \<open>\<open>str.isspace\<close>, \<open>str.split()\<close> and \<open>str.rstrip()\<close> on latin-1 characters.\<close>

definition isspace_latin1 :: "char \<Rightarrow> bool" where
  "isspace_latin1 c = (c \<in> {CHR 0x09, CHR 0x0A, CHR 0x0B, CHR 0x0C, CHR 0x0D,
                             CHR 0x1C, CHR 0x1D, CHR 0x1E, CHR 0x1F, CHR 0x20,
                             CHR 0x85, CHR 0xA0})"

function py_split :: "string \<Rightarrow> string list" where
  "py_split [] = []"
| "py_split (c # cs) =
     (if isspace_latin1 c then py_split cs
      else (c # takeWhile (\<lambda>x. \<not> isspace_latin1 x) cs)
           # py_split (dropWhile (\<lambda>x. \<not> isspace_latin1 x) cs))"
  by pat_completeness auto
termination
  by (relation "measure length") (auto simp: le_imp_less_Suc length_dropWhile_le)

definition py_rstrip :: "string \<Rightarrow> string" where
  "py_rstrip s = rev (dropWhile isspace_latin1 (rev s))"

text \<open>\<open>str.split(sep)\<close> for a separator of one character.\<close>

fun split_on :: "char \<Rightarrow> string \<Rightarrow> string list" where
  "split_on c [] = [[]]"
| "split_on c (x # xs) =
     (if x = c then [] # split_on c xs
      else (x # hd (split_on c xs)) # tl (split_on c xs))"

text \<open>\<open>Message.get(name, "")\<close>: the first header of that name, whatever its case.\<close>

fun headers_get :: "(string \<times> string) list \<Rightarrow> string \<Rightarrow> string" where
  "headers_get [] name = []"
| "headers_get ((k, v) # rest) name =
     (if py_lower k = py_lower name then v else headers_get rest name)"

text \<open>
  The version of the request line, as \<open>parse_request\<close> reads it: \<open>HTTP/\<close>, then two
  numbers of at most ten digits with one dot between them. A component that
  \<open>str.isdigit\<close> accepts and \<open>int\<close> refuses ends in the same ValueError as one that
  \<open>isdigit\<close> refuses, so only ASCII digits get through.
\<close>

definition number_of :: "string \<Rightarrow> nat" where
  "number_of ds = foldl (\<lambda>n d. n * 10 + digit_val d) 0 ds"

definition base_version_number :: "string \<Rightarrow> string" where
  "base_version_number version = tl (dropWhile (\<lambda>c. c \<noteq> CHR ''/'') version)"

definition parse_version :: "string \<Rightarrow> (nat \<times> nat) option" where
  "parse_version version =
     (if \<not> prefix ''HTTP/'' version then None
      else (case split_on (CHR ''.'') (base_version_number version) of
              [a, b] \<Rightarrow>
                if a \<noteq> [] \<and> b \<noteq> [] \<and> list_all is_digit a \<and> list_all is_digit b
                   \<and> length a \<le> 10 \<and> length b \<le> 10
                then Some (number_of a, number_of b) else None
            | _ \<Rightarrow> None))"

text \<open>\<open>handle_expect_100\<close>, and \<open>parse_request\<close> with its verdict.\<close>

definition handle_expect_100 :: "handler \<Rightarrow> py_exception + bool \<times> handler" where
  "handle_expect_100 h =
     and_then (end_headers (send_response_only h 100 None)) (\<lambda>h. Inr (True, h))"

definition failed :: "py_exception + handler \<Rightarrow> py_exception + bool \<times> handler" where
  "failed r = and_then r (\<lambda>h. Inr (False, h))"

definition parse_headers_and_rest ::
  "pylib \<Rightarrow> handler \<Rightarrow> request \<Rightarrow> py_exception + bool \<times> handler" where
  "parse_headers_and_rest lib h req =
     (case header_lines req of
        LineTooLong err \<Rightarrow> failed (send_error lib h 431 (Some ''Line too long'') (Some err))
      | TooManyHeaders err \<Rightarrow>
          failed (send_error lib h 431 (Some ''Too many headers'') (Some err))
      | Headers hs \<Rightarrow>
          (let h = h\<lparr>headers := hs\<rparr>;
               conntype = headers_get hs ''Connection'';
               h = (if py_lower conntype = ''close'' then h\<lparr>close_connection := True\<rparr>
                    else if py_lower conntype = ''keep-alive''
                            \<and> protocol_version \<ge> ''HTTP/1.1''
                    then h\<lparr>close_connection := False\<rparr> else h);
               expect = headers_get hs ''Expect''
           in if py_lower expect = ''100-continue'' \<and> protocol_version \<ge> ''HTTP/1.1''
                 \<and> request_version h \<ge> ''HTTP/1.1''
              then handle_expect_100 h
              else Inr (True, h)))"

definition parse_words ::
  "pylib \<Rightarrow> handler \<Rightarrow> request \<Rightarrow> string list \<Rightarrow> py_exception + bool \<times> handler" where
  "parse_words lib h req words =
     (if \<not> (2 \<le> length words \<and> length words \<le> 3)
      then failed (send_error lib h 400
                     (Some (''Bad request syntax ('' @ py_repr (requestline h) @ '')''))
                     None)
      else (let cmd = words ! 0; pth = words ! 1;
                h = (if length words = 2 then h\<lparr>close_connection := True\<rparr> else h)
            in if length words = 2 \<and> cmd \<noteq> ''GET''
               then failed (send_error lib h 400
                              (Some (''Bad HTTP/0.9 request type ('' @ py_repr cmd @ '')''))
                              None)
               else (let h = h\<lparr>command := Some cmd, path := pth\<rparr>;
                         h = (if prefix ''//'' (path h)
                              then h\<lparr>path := CHR ''/''
                                              # dropWhile (\<lambda>c. c = CHR ''/'') (path h)\<rparr>
                              else h)
                     in parse_headers_and_rest lib h req)))"

definition parse_request ::
  "pylib \<Rightarrow> handler \<Rightarrow> request \<Rightarrow> py_exception + bool \<times> handler" where
  "parse_request lib h req =
     (let h = h\<lparr>command := None, request_version := ''HTTP/0.9'', close_connection := True\<rparr>;
          line = rev (dropWhile (\<lambda>c. c = CHR 0x0D \<or> c = CHR 0x0A)
                        (rev (raw_requestline req)));
          h = h\<lparr>requestline := line\<rparr>;
          words = py_split line
      in if length words = 0 then Inr (False, h)
         else if length words \<ge> 3
         then (let version = last words
               in case parse_version version of
                    None \<Rightarrow>
                      failed (send_error lib h 400
                                (Some (''Bad request version ('' @ py_repr version @ '')''))
                                None)
                  | Some (major, minor) \<Rightarrow>
                      (let h = (if (major > 1 \<or> (major = 1 \<and> minor \<ge> 1))
                                   \<and> protocol_version \<ge> ''HTTP/1.1''
                                then h\<lparr>close_connection := False\<rparr> else h)
                       in if major \<ge> 2
                          then failed (send_error lib h 505
                                         (Some (''Invalid HTTP version (''
                                                @ base_version_number version @ '')''))
                                         None)
                          else parse_words lib (h\<lparr>request_version := version\<rparr>) req words))
         else parse_words lib h req words)"

subsection \<open>Inherited from SimpleHTTPRequestHandler\<close>

text \<open>\<open>posixpath.normpath\<close>, from its definition in Python.\<close>

definition normpath_step :: "string \<Rightarrow> string list \<Rightarrow> string \<Rightarrow> string list" where
  "normpath_step initial_slashes new_comps part =
     (if part = [] \<or> part = ''.'' then new_comps
      else if part \<noteq> ''..'' \<or> (initial_slashes = [] \<and> new_comps = [])
              \<or> (new_comps \<noteq> [] \<and> last new_comps = ''..'')
      then new_comps @ [part]
      else if new_comps \<noteq> [] then butlast new_comps
      else new_comps)"

fun join_with :: "string \<Rightarrow> string list \<Rightarrow> string" where
  "join_with sep [] = []"
| "join_with sep [x] = x"
| "join_with sep (x # y # ys) = x @ sep @ join_with sep (y # ys)"

definition posix_normpath :: "string \<Rightarrow> string" where
  "posix_normpath p =
     (if p = [] then ''.''
      else (let (initial_slashes, rest) =
                  (if \<not> prefix ''/'' p then ([], p)
                   else if \<not> prefix ''//'' p \<or> prefix ''///'' p then (''/'', drop 1 p)
                   else (''//'', drop 2 p));
                comps = foldl (normpath_step initial_slashes) [] (split_on (CHR ''/'') rest);
                r = initial_slashes @ join_with ''/'' comps
            in if r = [] then ''.'' else r))"

text \<open>\<open>translate_path\<close>, with the handler's directory and the path of the request.\<close>

definition add_word :: "string \<Rightarrow> string \<Rightarrow> string" where
  "add_word p word =
     (if os_path_dirname word \<noteq> [] \<or> word = ''.'' \<or> word = ''..'' then p
      else os_path_join p word)"

definition translate_path :: "pylib \<Rightarrow> string \<Rightarrow> string \<Rightarrow> string" where
  "translate_path lib direc p =
     (let p = takeWhile (\<lambda>c. c \<noteq> CHR ''?'') p;
          p = takeWhile (\<lambda>c. c \<noteq> CHR ''#'') p;
          trailing_slash = (py_rstrip p \<noteq> [] \<and> last (py_rstrip p) = CHR ''/'');
          p = posix_normpath (unquote lib p);
          words = filter (\<lambda>w. w \<noteq> []) (split_on (CHR ''/'') p)
      in foldl add_word direc words @ (if trailing_slash then ''/'' else []))"

text \<open>
  \<open>list_directory\<close> and \<open>send_head\<close> return the bytes that \<open>do_GET\<close> is to copy,
  or nothing. Opening a path for reading succeeds on a regular file and raises OSError
  otherwise.
\<close>

definition list_directory ::
  "pylib \<Rightarrow> filesystem \<Rightarrow> handler \<Rightarrow> string \<Rightarrow> py_exception + string option \<times> handler" where
  "list_directory lib fsys h p =
     (case os_listdir fsys p of
        Inl e \<Rightarrow>
          and_then (send_error lib h 404 (Some ''No permission to list directory'') None)
            (\<lambda>h. Inr (None, h))
      | Inr names \<Rightarrow>
          (let encoded = listing lib p (path h) names
           in and_then (send_response lib h 200 None) (\<lambda>h.
              and_then (end_headers
                          (send_header
                             (send_header h ''Content-type''
                                (''text/html; charset='' @ fs_encoding lib))
                             ''Content-Length'' (str_int (int (length encoded)))))
                (\<lambda>h. Inr (Some encoded, h)))))"

definition send_file ::
  "pylib \<Rightarrow> filesystem \<Rightarrow> handler \<Rightarrow> string \<Rightarrow> py_exception + string option \<times> handler" where
  "send_file lib fsys h p =
     (let ctype = guess_type lib p
      in if p \<noteq> [] \<and> last p = CHR ''/''
         then and_then (send_error lib h 404 (Some ''File not found'') None)
                (\<lambda>h. Inr (None, h))
         else (case fsys p of
                 Some (File bytes) \<Rightarrow>
                   if not_modified lib (headers h) p
                   then and_then (send_response lib h 304 None) (\<lambda>h.
                        and_then (end_headers h) (\<lambda>h. Inr (None, h)))
                   else and_then (send_response lib h 200 None) (\<lambda>h.
                        and_then (end_headers
                                    (send_header
                                       (send_header
                                          (send_header h ''Content-type'' ctype)
                                          ''Content-Length'' (str_int (int (length bytes))))
                                       ''Last-Modified'' (last_modified lib p)))
                          (\<lambda>h. Inr (Some bytes, h)))
               | _ \<Rightarrow>
                   and_then (send_error lib h 404 (Some ''File not found'') None)
                     (\<lambda>h. Inr (None, h))))"

definition send_head ::
  "pylib \<Rightarrow> filesystem \<Rightarrow> handler \<Rightarrow> py_exception + string option \<times> handler" where
  "send_head lib fsys h =
     (let p = translate_path lib (directory h) (path h)
      in if os_path_isdir fsys p
         then (if \<not> (urlsplit_path lib (path h) \<noteq> []
                      \<and> last (urlsplit_path lib (path h)) = CHR ''/'')
               then and_then (send_response lib h 301 None) (\<lambda>h.
                    and_then (end_headers
                                (send_header
                                   (send_header h ''Location'' (redirect_url lib (path h)))
                                   ''Content-Length'' ''0''))
                      (\<lambda>h. Inr (None, h)))
               else if os_path_isfile fsys (os_path_join p ''index.html'')
               then send_file lib fsys h (os_path_join p ''index.html'')
               else if os_path_isfile fsys (os_path_join p ''index.htm'')
               then send_file lib fsys h (os_path_join p ''index.htm'')
               else list_directory lib fsys h p)
         else send_file lib fsys h p)"

text \<open>\<open>copyfile\<close> writes the bytes to the connection; nothing is written for none.\<close>

definition do_GET :: "pylib \<Rightarrow> filesystem \<Rightarrow> handler \<Rightarrow> py_exception + handler" where
  "do_GET lib fsys h =
     and_then (send_head lib fsys h) (\<lambda>(f, h).
       Inr (case f of
              None \<Rightarrow> h
            | Some bytes \<Rightarrow> if bytes = [] then h else h\<lparr>wfile := wfile h @ [bytes]\<rparr>))"

definition do_HEAD :: "pylib \<Rightarrow> filesystem \<Rightarrow> handler \<Rightarrow> py_exception + handler" where
  "do_HEAD lib fsys h = and_then (send_head lib fsys h) (\<lambda>(f, h). Inr h)"

text \<open>
  \<open>handle_one_request\<close>. The class has the methods \<open>do_GET\<close> and \<open>do_HEAD\<close> and no
  other attribute whose name starts with \<open>do_\<close>, so \<open>hasattr(self, 'do_' + command)\<close>
  holds for these two commands only.
\<close>

definition handle_one_request ::
  "pylib \<Rightarrow> filesystem \<Rightarrow> handler \<Rightarrow> request \<Rightarrow> py_exception + handler" where
  "handle_one_request lib fsys h req =
     (if length (raw_requestline req) > 65536
      then send_error lib (h\<lparr>requestline := [], request_version := [], command := Some []\<rparr>)
             414 None None
      else if raw_requestline req = [] then Inr (h\<lparr>close_connection := True\<rparr>)
      else and_then (parse_request lib h req) (\<lambda>(ok, h).
             if \<not> ok then Inr h
             else (case command h of
                     None \<Rightarrow> Inl TypeError
                   | Some cmd \<Rightarrow>
                       if cmd = ''GET'' then do_GET lib fsys h
                       else if cmd = ''HEAD'' then do_HEAD lib fsys h
                       else send_error lib h 501
                              (Some (''Unsupported method ('' @ py_repr cmd @ '')''))
                              None)))"

text \<open>
  The canonical form of an absolute path: its components with the empty ones and \<open>.\<close>
  dropped and each \<open>..\<close> taking the component before it away, as the operating system
  resolves them where no symbolic link is involved.
\<close>

definition stack_step :: "string list \<Rightarrow> string \<Rightarrow> string list" where
  "stack_step st part =
     (if part = [] \<or> part = ''.'' then st
      else if part = ''..'' then butlast st
      else st @ [part])"

definition path_stack :: "string \<Rightarrow> string list" where
  "path_stack p = foldl stack_step [] (split_on (CHR ''/'') p)"

text \<open>
  A library for the examples: percent decoding and URL splitting as they are on a path
  without \<open>%\<close>, \<open>?\<close>, \<open>#\<close>, scheme or host (the identity), one MIME type, no
  If-Modified-Since header ever matching, and fixed strings for the rest.
\<close>

definition sample_lib :: pylib where
  "sample_lib = \<lparr>version_string = ''SimpleHTTP/0.6 Python/3.12.3'',
                  date_time_string = ''Wed, 04 Nov 2026 00:00:00 GMT'',
                  unquote = (\<lambda>s. s), urlsplit_path = (\<lambda>s. s),
                  redirect_url = (\<lambda>s. s @ ''/''),
                  guess_type = (\<lambda>p. ''application/octet-stream''),
                  not_modified = (\<lambda>hs p. False),
                  last_modified = (\<lambda>p. ''Tue, 03 Nov 2026 00:00:00 GMT''),
                  listing = (\<lambda>p url names. ''<!DOCTYPE HTML>''),
                  fs_encoding = ''utf-8''\<rparr>"

text \<open>The sample file system with one more file, next to the data directory.\<close>

definition fs_with_secret :: filesystem where
  "fs_with_secret = sample_fs(''/srv/demo/secret.txt'' \<mapsto> File ''top secret'')"

definition get_request :: "string \<Rightarrow> request" where
  "get_request line = \<lparr>raw_requestline = line @ CRLF, header_lines = Headers []\<rparr>"

text \<open>A handler that has just been created for a connection from 10.0.0.7.\<close>

definition fresh :: handler where
  "fresh = \<lparr>client_address = ''10.0.0.7'', directory = ''/srv/demo/sample-data'',
            requestline = [], command = None, path = [], request_version = [],
            close_connection = True, headers = [], headers_buffer = None, wfile = [],
            stdout = [],
            stderr = []\<rparr>"

text \<open>
  The same handler answering a request of version HTTP/0.9, and answering an HTTP/1.1
  request with a status line and one header already buffered.
\<close>

definition http09 :: handler where
  "http09 = fresh\<lparr>request_version := ''HTTP/0.9''\<rparr>"

definition answering :: handler where
  "answering = fresh\<lparr>request_version := ''HTTP/1.1'',
                     headers_buffer := Some [''HTTP/1.0 200 OK'' @ CRLF,
                                             ''Content-Length: 10'' @ CRLF]\<rparr>"

section \<open>Properties of the bootstrap\<close>

lemma print_files_stdout:
  "print_files fsys cwd port xs = (evs, r) \<Longrightarrow> e \<in> set evs \<Longrightarrow> \<exists>s. e = Stdout s"
  by (induction xs arbitrary: evs r) (auto split: sum.splits prod.splits)

lemma print_files_regular:
  "\<forall>f\<in>set xs. os_path_isfile fsys (os_path_join cwd f) \<Longrightarrow>
   print_files fsys cwd port xs =
     (map (\<lambda>f. Stdout (file_line port f (length (file_bytes fsys (os_path_join cwd f))))) xs, None)"
  by (induction xs)
     (auto simp: os_path_isfile_def os_path_getsize_def file_bytes_def
           split: option.splits node.splits)

lemma py_int_8888: "py_int ''8888'' = Some 8888"
  by code_simp

lemma sample_path:
  "os_path_join (os_path_dirname (script_abspath sample_env)) SAMPLE_DATA_DIR
     = ''/srv/demo/sample-data''"
  by code_simp

text \<open>
  C5, as the code has it. An argument that \<open>int\<close> refuses makes \<open>main\<close> print the error
  line and the usage line with \<open>print\<close>, that is on standard output, and exit with code 1;
  nothing else has happened by then, in particular no socket exists. An argument that
  \<open>int\<close> accepts is used as it is, whatever the number: where the data directory is in
  place, the run changes into it and creates the server with that number, and if the
  creation raises (a number outside 0..65535, an address the system refuses) this
  exception ends the run, not the usage error. Without an argument the run is the run
  with the argument 8888, which \<open>int\<close> reads as 8888.
\<close>

theorem main_port_argument:
  "(py_int a = None \<longrightarrow>
      main env (prog # a # rest) =
        ([Stdout (''Error: Invalid port number '' @ squote @ a @ squote),
          Stdout (''Usage: '' @ prog @ '' [port]'')], Exit 1))
   \<and> (py_int a = Some port
        \<and> fs env (os_path_join (os_path_dirname (script_abspath env)) SAMPLE_DATA_DIR)
            = Some (Dir names sz) \<longrightarrow>
        prefix
          [Chdir (os_path_join (os_path_dirname (script_abspath env)) SAMPLE_DATA_DIR),
           Bind ''0.0.0.0'' port]
          (fst (main env (prog # a # rest)))
        \<and> (\<forall>e. HTTPServer env port = Inl e \<longrightarrow>
               main env (prog # a # rest) =
                 ([Chdir (os_path_join (os_path_dirname (script_abspath env)) SAMPLE_DATA_DIR),
                   Bind ''0.0.0.0'' port], Uncaught e)))
   \<and> py_int ''8888'' = Some 8888
   \<and> main env [prog] = main env [prog, ''8888'']"
proof (intro conjI impI allI)
  show "py_int ''8888'' = Some 8888" by (rule py_int_8888)
  show "main env [prog] = main env [prog, ''8888'']"
    by (simp add: main_def py_int_8888 DEFAULT_PORT_def)
next
  assume "py_int a = None"
  then show "main env (prog # a # rest) =
        ([Stdout (''Error: Invalid port number '' @ squote @ a @ squote),
          Stdout (''Usage: '' @ prog @ '' [port]'')], Exit 1)"
    by (simp add: main_def)
next
  assume h: "py_int a = Some port
        \<and> fs env (os_path_join (os_path_dirname (script_abspath env)) SAMPLE_DATA_DIR)
            = Some (Dir names sz)"
  then show "prefix
          [Chdir (os_path_join (os_path_dirname (script_abspath env)) SAMPLE_DATA_DIR),
           Bind ''0.0.0.0'' port]
          (fst (main env (prog # a # rest)))"
    by (simp add: main_def Let_def os_path_exists_def os_chdir_def os_listdir_def
             split: sum.splits prod.splits option.splits)
  fix e
  assume "HTTPServer env port = Inl e"
  with h show "main env (prog # a # rest) =
                 ([Chdir (os_path_join (os_path_dirname (script_abspath env)) SAMPLE_DATA_DIR),
                   Bind ''0.0.0.0'' port], Uncaught e)"
    by (simp add: main_def Let_def os_path_exists_def os_chdir_def os_listdir_def)
qed

theorem main_port_argument_witness:
  "py_int ''abc'' = None
   \<and> main sample_env [''serve-sample-data.py'', ''abc''] =
        ([Stdout (''Error: Invalid port number '' @ squote @ ''abc'' @ squote),
          Stdout ''Usage: serve-sample-data.py [port]''], Exit 1)
   \<and> py_int ''70000'' = Some 70000
   \<and> fs sample_env ''/srv/demo/sample-data'' = Some (Dir [''sub'', ''b.csv'', ''a.json''] 4096)
   \<and> HTTPServer sample_env 70000 = Inl OverflowError
   \<and> main sample_env [''serve-sample-data.py'', ''70000''] =
        ([Chdir ''/srv/demo/sample-data'', Bind ''0.0.0.0'' 70000], Uncaught OverflowError)
   \<and> main sample_env [''serve-sample-data.py'']
       = main sample_env [''serve-sample-data.py'', ''8888'']"
proof -
  have h: "py_int ''abc'' = None" by code_simp
  have p: "py_int ''70000'' = Some 70000" by code_simp
  have d: "fs sample_env ''/srv/demo/sample-data''
             = Some (Dir [''sub'', ''b.csv'', ''a.json''] 4096)"
    by code_simp
  have o: "HTTPServer sample_env 70000 = Inl OverflowError"
    by (simp add: HTTPServer_def)
  have a: "main sample_env [''serve-sample-data.py'', ''abc''] =
        ([Stdout (''Error: Invalid port number '' @ squote @ ''abc'' @ squote),
          Stdout ''Usage: serve-sample-data.py [port]''], Exit 1)"
    using h main_port_argument [of "''abc''" sample_env "''serve-sample-data.py''" "[]"]
    by simp
  have b: "main sample_env [''serve-sample-data.py'', ''70000''] =
        ([Chdir ''/srv/demo/sample-data'', Bind ''0.0.0.0'' 70000], Uncaught OverflowError)"
    using p d o
      main_port_argument [of "''70000''" sample_env "''serve-sample-data.py''" "[]" 70000
                             "[''sub'', ''b.csv'', ''a.json'']" 4096]
    unfolding sample_path by blast
  have c: "main sample_env [''serve-sample-data.py'']
       = main sample_env [''serve-sample-data.py'', ''8888'']"
    using main_port_argument [of "''abc''" sample_env "''serve-sample-data.py''" "[]"]
    by simp
  show ?thesis using h a p d o b c by blast
qed

text \<open>
  C5 as stated fails: the argument 0 is not in 1..65535, and yet the run creates the
  server and serves instead of exiting with code 1.
\<close>

theorem port_zero_counterexample:
  "py_int ''0'' = Some 0
   \<and> snd (main sample_env [''serve-sample-data.py'', ''0'']) = Serving
   \<and> Bind ''0.0.0.0'' 0 \<in> set (fst (main sample_env [''serve-sample-data.py'', ''0'']))"
  by code_simp

lemma bind_first:
  assumes "Bind h p \<in> set (fst (main env argv))"
  shows "\<exists>names sz rest.
           fs env (os_path_join (os_path_dirname (script_abspath env)) SAMPLE_DATA_DIR)
             = Some (Dir names sz)
           \<and> fst (main env argv) =
               Chdir (os_path_join (os_path_dirname (script_abspath env)) SAMPLE_DATA_DIR)
                 # Bind h p # rest"
  using assms
  by (auto simp: main_def Let_def os_path_exists_def os_chdir_def os_listdir_def
                 banner_head_def banner_tail_def
           dest: print_files_stdout
           split: if_splits sum.splits option.splits node.splits prod.splits)

lemma main_serving_events:
  assumes "(if length argv > 1 then py_int (argv ! 1) else Some DEFAULT_PORT) = Some port"
    and "fs env (os_path_join (os_path_dirname (script_abspath env)) SAMPLE_DATA_DIR)
           = Some (Dir names sz)"
    and "HTTPServer env port = Inr ()"
    and "sample_data_path = os_path_join (os_path_dirname (script_abspath env)) SAMPLE_DATA_DIR"
    and "files = filter (\<lambda>f. os_path_isfile (fs env) (os_path_join sample_data_path f)) names"
  shows "prefix
           ([Chdir sample_data_path, Bind ''0.0.0.0'' port]
              @ banner_head sample_data_path port (length files)
              @ map (\<lambda>f. Stdout (file_line port f
                                   (length (file_bytes (fs env) (os_path_join sample_data_path f)))))
                    (sort files)
              @ banner_tail port @ [ServeForever])
           (fst (main env argv))"
proof -
  have reg: "\<forall>f\<in>set (sort files). os_path_isfile (fs env) (os_path_join sample_data_path f)"
    using assms(5) by simp
  have port: "(if length argv > 1
            then (case py_int (argv ! 1) of None \<Rightarrow> Inl ValueError | Some p \<Rightarrow> Inr p)
            else Inr DEFAULT_PORT) = Inr port"
    using assms(1) by (auto split: if_splits)
  show ?thesis
    unfolding main_def port
    using assms(2,3) print_files_regular [OF reg, of port] assms(4,5)
    by (simp add: Let_def os_path_exists_def os_chdir_def os_listdir_def)
qed

lemma sample_serving:
  "prefix
        ([Chdir ''/srv/demo/sample-data'', Bind ''0.0.0.0'' 9000]
           @ banner_head ''/srv/demo/sample-data'' 9000 2
           @ [Stdout ''   - http://localhost:9000/a.json (10 bytes)'',
              Stdout ''   - http://localhost:9000/b.csv (20 bytes)'']
           @ banner_tail 9000 @ [ServeForever])
        (fst (main sample_env [''serve-sample-data.py'', ''9000'']))"
proof -
  let ?argv = "[''serve-sample-data.py'', ''9000'']"
  let ?names = "[''sub'', ''b.csv'', ''a.json'']"
  have p: "py_int ''9000'' = Some 9000" by code_simp
  have h1: "(if length ?argv > 1 then py_int (?argv ! 1) else Some DEFAULT_PORT) = Some 9000"
    using p by simp
  have h2: "fs sample_env
              (os_path_join (os_path_dirname (script_abspath sample_env)) SAMPLE_DATA_DIR)
            = Some (Dir ?names 4096)"
    unfolding sample_path by code_simp
  have h3: "HTTPServer sample_env 9000 = Inr ()"
    by (simp add: HTTPServer_def sample_env_def)
  have f: "filter (\<lambda>f. os_path_isfile (fs sample_env) (os_path_join ''/srv/demo/sample-data'' f))
             ?names = [''b.csv'', ''a.json'']"
    by code_simp
  have s: "sort [''b.csv'', ''a.json''] = [''a.json'', ''b.csv'']"
    by code_simp
  have b1: "length (file_bytes (fs sample_env)
                      (os_path_join ''/srv/demo/sample-data'' ''a.json'')) = 10"
    by code_simp
  have b2: "length (file_bytes (fs sample_env)
                      (os_path_join ''/srv/demo/sample-data'' ''b.csv'')) = 20"
    by code_simp
  have l1: "file_line 9000 ''a.json'' 10 = ''   - http://localhost:9000/a.json (10 bytes)''"
    by (simp add: file_line_def str_int_def digits.simps digit_char_def)
  have l2: "file_line 9000 ''b.csv'' 20 = ''   - http://localhost:9000/b.csv (20 bytes)''"
    by (simp add: file_line_def str_int_def digits.simps digit_char_def)
  have n: "length [''b.csv'', ''a.json''] = 2" by simp
  from main_serving_events [OF h1 h2 h3 refl refl]
  show ?thesis
    unfolding sample_path f s n by (simp only: list.map b1 b2 l1 l2)
qed

text \<open>
  C6. When nothing exists at the data directory (demo/sample-data joined to the directory
  of the script), the run ends with exit code 1, it has printed something, and everything
  it did was printing: no change of directory, no socket. With a usable port argument the
  only output is the error line naming the sample_data_path. Conversely, a run that creates the
  listening socket found the directory and changed into it first.
\<close>

theorem main_missing_directory:
  "(fs env (os_path_join (os_path_dirname (script_abspath env)) SAMPLE_DATA_DIR) = None \<longrightarrow>
      snd (main env argv) = Exit 1
      \<and> fst (main env argv) \<noteq> []
      \<and> (\<forall>e \<in> set (fst (main env argv)). \<exists>s. e = Stdout s)
      \<and> (length argv \<le> 1 \<or> py_int (argv ! 1) \<noteq> None \<longrightarrow>
           fst (main env argv) =
             [Stdout (''Error: Sample data directory not found: ''
                @ os_path_join (os_path_dirname (script_abspath env)) SAMPLE_DATA_DIR)]))
   \<and> (Bind h p \<in> set (fst (main env argv)) \<longrightarrow>
        os_path_exists (fs env)
          (os_path_join (os_path_dirname (script_abspath env)) SAMPLE_DATA_DIR)
        \<and> (\<exists>rest. fst (main env argv) =
              Chdir (os_path_join (os_path_dirname (script_abspath env)) SAMPLE_DATA_DIR)
                # Bind h p # rest))"
proof (intro conjI impI)
  assume "Bind h p \<in> set (fst (main env argv))"
  from bind_first [OF this]
  show "os_path_exists (fs env)
          (os_path_join (os_path_dirname (script_abspath env)) SAMPLE_DATA_DIR)"
    and "\<exists>rest. fst (main env argv) =
              Chdir (os_path_join (os_path_dirname (script_abspath env)) SAMPLE_DATA_DIR)
                # Bind h p # rest"
    by (auto simp: os_path_exists_def)
qed (auto simp: main_def Let_def os_path_exists_def split: if_splits option.splits)

theorem main_missing_directory_witness:
  "fs missing_env (os_path_join (os_path_dirname (script_abspath missing_env)) SAMPLE_DATA_DIR)
     = None
   \<and> main missing_env [''serve-sample-data.py'', ''9000''] =
       ([Stdout (''Error: Sample data directory not found: ''
           @ os_path_join (os_path_dirname (script_abspath missing_env)) SAMPLE_DATA_DIR)],
        Exit 1)
   \<and> Bind ''0.0.0.0'' 9000 \<in> set (fst (main sample_env [''serve-sample-data.py'', ''9000'']))
   \<and> os_path_exists (fs sample_env)
        (os_path_join (os_path_dirname (script_abspath sample_env)) SAMPLE_DATA_DIR)"
proof -
  let ?argv = "[''serve-sample-data.py'', ''9000'']"
  have h1: "fs missing_env
              (os_path_join (os_path_dirname (script_abspath missing_env)) SAMPLE_DATA_DIR) = None"
    by (simp add: missing_env_def)
  have p: "py_int ''9000'' = Some 9000" by code_simp
  have h2: "length ?argv \<le> 1 \<or> py_int (?argv ! 1) \<noteq> None"
    using p by simp
  have h3: "Bind ''0.0.0.0'' 9000 \<in> set (fst (main sample_env ?argv))"
    using sample_serving by (auto simp: prefix_def)
  have a: "main missing_env ?argv =
       ([Stdout (''Error: Sample data directory not found: ''
           @ os_path_join (os_path_dirname (script_abspath missing_env)) SAMPLE_DATA_DIR)],
        Exit 1)"
    using main_missing_directory [of missing_env ?argv] h1 h2
    by (intro prod_eqI) simp_all
  have b: "os_path_exists (fs sample_env)
        (os_path_join (os_path_dirname (script_abspath sample_env)) SAMPLE_DATA_DIR)"
    using main_missing_directory [of sample_env ?argv "''0.0.0.0''" 9000] h3
    by blast
  show ?thesis using h1 a h3 b by blast
qed

text \<open>
  C8. When a regular file stands where the data directory should be, the existence check
  passes, \<open>os.chdir\<close> raises NotADirectoryError, nobody catches it, and nothing at all
  has been printed by then: no error line of the program's own.
\<close>

theorem main_directory_is_a_file:
  assumes "fs env (os_path_join (os_path_dirname (script_abspath env)) SAMPLE_DATA_DIR)
             = Some (File bytes)"
    and "length argv \<le> 1 \<or> py_int (argv ! 1) \<noteq> None"
  shows "os_path_exists (fs env)
           (os_path_join (os_path_dirname (script_abspath env)) SAMPLE_DATA_DIR)
         \<and> os_chdir (fs env)
             (os_path_join (os_path_dirname (script_abspath env)) SAMPLE_DATA_DIR)
             = Inl NotADirectoryError
         \<and> main env argv = ([], Uncaught NotADirectoryError)"
  using assms
  by (auto simp: main_def Let_def os_path_exists_def os_chdir_def split: option.splits)

theorem main_directory_is_a_file_witness:
  "fs file_env (os_path_join (os_path_dirname (script_abspath file_env)) SAMPLE_DATA_DIR)
     = Some (File ''not a directory'')
   \<and> os_path_exists (fs file_env)
        (os_path_join (os_path_dirname (script_abspath file_env)) SAMPLE_DATA_DIR)
   \<and> main file_env [''serve-sample-data.py''] = ([], Uncaught NotADirectoryError)"
proof -
  have h1: "fs file_env
              (os_path_join (os_path_dirname (script_abspath file_env)) SAMPLE_DATA_DIR)
            = Some (File ''not a directory'')"
    by code_simp
  have h2: "length [''serve-sample-data.py''] \<le> 1
            \<or> py_int ([''serve-sample-data.py''] ! 1) \<noteq> None"
    by simp
  show ?thesis
    using h1 main_directory_is_a_file [OF h1 h2] by blast
qed



section \<open>Properties of the request handler\<close>

lemma cors_keywords:
  "py_lower ''Access-Control-Allow-Origin'' \<noteq> ''connection''"
  "py_lower ''Access-Control-Allow-Methods'' \<noteq> ''connection''"
  "py_lower ''Access-Control-Allow-Headers'' \<noteq> ''connection''"
  by code_simp+

text \<open>
  C9. Where \<open>format % args\<close> yields a message, \<open>log_message\<close> appends exactly one entry
  to standard output, the line \<open>[HTTP] address - message\<close>; standard error, the connection
  and every other attribute of the handler stay as they were.
\<close>

theorem log_message_stdout:
  assumes "py_format format args = Inr message"
  shows "\<exists>h'. log_message h format args = Inr h'
           \<and> stdout h' = stdout h @ [''[HTTP] '' @ client_address h @ '' - '' @ message]
           \<and> stderr h' = stderr h \<and> wfile h' = wfile h
           \<and> h' = h\<lparr>stdout := stdout h'\<rparr>"
  using assms by (simp add: log_message_def address_string_def)

theorem log_message_stdout_witness:
  "py_format ''code %d, message %s'' [PInt 404, PStr ''File not found'']
     = Inr ''code 404, message File not found''
   \<and> (\<exists>h'. log_message fresh ''code %d, message %s'' [PInt 404, PStr ''File not found'']
              = Inr h'
           \<and> stdout h' = [''[HTTP] 10.0.0.7 - code 404, message File not found'']
           \<and> stderr h' = [] \<and> wfile h' = [])"
proof -
  have f: "py_format ''code %d, message %s'' [PInt 404, PStr ''File not found'']
             = Inr ''code 404, message File not found''"
    by (simp add: convert_def py_str_def str_int_def digits.simps digit_char_def)
  show ?thesis
    using f log_message_stdout [OF f, of fresh] by (auto simp: fresh_def)
qed

text \<open>
  C10, as the code has it. For a response that is not in HTTP/0.9 mode, \<open>end_headers\<close>
  writes, in one piece, the lines buffered so far (status line and earlier headers,
  unchanged and in their order), then exactly the three CORS lines, then the empty line;
  what was written before stays, the buffer is emptied, nothing else changes. In HTTP/0.9
  mode \<open>send_header\<close> and the base \<open>end_headers\<close> do nothing: the handler is unchanged
  and no header is added.
\<close>

theorem end_headers_frame:
  "(request_version h \<noteq> ''HTTP/0.9'' \<longrightarrow>
      end_headers h =
        Inr (h\<lparr>wfile := wfile h
                   @ [concat ((case headers_buffer h of None \<Rightarrow> [] | Some b \<Rightarrow> b)
                              @ cors_lines @ [CRLF])],
               headers_buffer := Some []\<rparr>))
   \<and> (request_version h = ''HTTP/0.9'' \<longrightarrow> end_headers h = Inr h)"
  by (simp add: end_headers_def send_header_def base_end_headers_def flush_headers_def
                cors_keywords cors_lines_def Let_def split: option.splits)

theorem end_headers_frame_witness:
  "request_version answering \<noteq> ''HTTP/0.9''
   \<and> end_headers answering =
       Inr (answering\<lparr>wfile := [''HTTP/1.0 200 OK'' @ CRLF @ ''Content-Length: 10'' @ CRLF
                                 @ concat cors_lines @ CRLF],
                      headers_buffer := Some []\<rparr>)
   \<and> request_version http09 = ''HTTP/0.9''
   \<and> end_headers http09 = Inr http09"
  using end_headers_frame [of answering] end_headers_frame [of http09]
  by (simp add: answering_def http09_def fresh_def)

text \<open>
  C10 as stated fails for a handler in HTTP/0.9 mode: after \<open>end_headers\<close> no header
  has been added to the buffer or to the connection.
\<close>

theorem http09_counterexample:
  "end_headers http09 = Inr http09 \<and> headers_buffer http09 = None \<and> wfile http09 = []"
  by (simp add: end_headers_def send_header_def base_end_headers_def http09_def fresh_def
                cors_keywords)

end
